theory Spec2Isabelle
  imports Main
begin

section \<open>The data of ChatLanguageModels.py\<close>

text \<open>
  A Python \<open>str\<close> is modelled as a HOL \<open>string\<close>: one list element stands for one
  element of the Python string (what \<open>list(response)\<close> splits at and what \<open>+=\<close> joins).

  A row of the table \<open>history (date text, role text, content text, response text)\<close> is a
  4-tuple of strings. The store maps a path to what is there: a directory, an SQLite
  database, which may or may not hold the table \<open>history\<close>, or a file SQLite refuses to
  read. The table is the list of its rows in rowid order, which is the order
  \<open>SELECT * FROM history\<close> scans it in; the code never deletes a single row, so rowid
  order is insertion order. Paths are taken as they are written: \<open>.\<close> and \<open>..\<close> are
  not resolved.
\<close>

type_synonym row = "string \<times> string \<times> string \<times> string"

datatype db_file = Directory | NotADatabase | Database "row list option"

type_synonym files = "string \<rightharpoonup> db_file"

text \<open>The dictionaries held in \<open>message_history\<close>, with keys date, role, content, response.\<close>

record turn =
  date :: string
  role :: string
  content :: string
  response :: string

text \<open>The values of the dictionary \<open>models\<close>, and the dictionary itself.\<close>

datatype g4f_model = gpt_35_turbo | gpt_35_turbo_0613 | gpt_4 | gemini | blackbox | mixtral_8x7b

definition models :: "(string \<times> g4f_model) list" where
  "models =
     [(''gpt-3.5 turbo'', gpt_35_turbo),
      (''gpt-3.5 turbo_0613'', gpt_35_turbo_0613),
      (''gpt-4'', gpt_4),
      (''gemini'', gemini),
      (''blackbox'', blackbox),
      (''mixtral 8x7b'', mixtral_8x7b)]"

text \<open>
  An exception that no handler of the program catches. It leaves a slot of the window, and
  the application stops there; the model returns the exception and no state.
\<close>

datatype error =
    AttributeError    \<comment> \<open>\<open>self.c.execute\<close> while \<open>self.c\<close> is \<open>None\<close>\<close>
  | OperationalError  \<comment> \<open>sqlite3: no such table: history; unable to open database file\<close>
  | DatabaseError     \<comment> \<open>sqlite3: file is not a database\<close>

datatype message_box =
    Warning string string
  | Information string string
  | Critical string string
  | Question string string

text \<open>
  class \<open>Worker\<close>: the thread object. \<open>worker_message_history\<close> is the list the thread
  hands to the provider, read when the thread is started.
\<close>

record Worker =
  worker_model :: g4f_model
  worker_message_history :: "turn list"
  worker_output_text :: string

text \<open>
  class \<open>ChatApp\<close>, together with the store of files it works on. \<open>conn\<close> and \<open>c\<close> hold
  the path the open connection and its cursor were opened on. \<open>prompt_input\<close> and
  \<open>model_combo\<close> are the contents of the two input widgets, \<open>long_running_task_timer\<close>
  says whether the timer is active, \<open>threads\<close> are the worker threads started and not yet
  finished, \<open>started\<close> all the workers \<open>start\<close> was called on so far, one for each call
  of the provider, \<open>modal\<close> the message boxes shown so far.
\<close>

record ChatApp =
  current_prompt :: string
  message_history :: "turn list"
  conn :: "string option"
  c :: "string option"
  output_text :: string
  database_folder :: "string option"
  database_path :: "string option"
  prompt_input :: string
  model_combo :: g4f_model
  worker :: Worker
  long_running_task_timer :: bool
  threads :: "Worker list"
  started :: "Worker list"
  modal :: "message_box list"
  files :: files

section \<open>Library functions the program calls\<close>

text \<open>Python's \<open>not x\<close> on a value that is \<open>None\<close> or a string.\<close>

definition truthy :: "string option \<Rightarrow> bool" where
  "truthy x = (case x of None \<Rightarrow> False | Some v \<Rightarrow> v \<noteq> [])"

text \<open>\<open>os.path.join\<close> of two components, as \<open>posixpath\<close> computes it.\<close>

definition os_path_join :: "string \<Rightarrow> string \<Rightarrow> string" where
  "os_path_join a b =
     (if b \<noteq> [] \<and> hd b = CHR ''/'' then b
      else if a = [] \<or> last a = CHR ''/'' then a @ b
      else a @ ''/'' @ b)"

text \<open>\<open>os.path.exists\<close>.\<close>

definition os_path_exists :: "files \<Rightarrow> string \<Rightarrow> bool" where
  "os_path_exists fs p = (fs p \<noteq> None)"

text \<open>\<open>str.rstrip('/')\<close>, and \<open>os.path.dirname\<close> as \<open>posixpath\<close> computes it.\<close>

definition rstrip_sep :: "string \<Rightarrow> string" where
  "rstrip_sep p = rev (dropWhile (\<lambda>ch. ch = CHR ''/'') (rev p))"

definition os_path_dirname :: "string \<Rightarrow> string" where
  "os_path_dirname p =
     (let head = rev (dropWhile (\<lambda>ch. ch \<noteq> CHR ''/'') (rev p))
      in if head \<noteq> [] \<and> \<not> list_all (\<lambda>ch. ch = CHR ''/'') head then rstrip_sep head
         else head)"

text \<open>
  \<open>os.makedirs(folder, exist_ok=True)\<close> leaves the store as it is; from then on the
  folder is a directory that exists. A directory \<open>d\<close>, written as \<open>os.path.dirname\<close>
  returns it, exists when the store has a directory there, when it is the working
  directory (the empty path), or when it is the folder \<open>made\<close> that \<open>os.makedirs\<close> was
  called on.
\<close>

definition directory_exists :: "files \<Rightarrow> string option \<Rightarrow> string \<Rightarrow> bool" where
  "directory_exists fs made d =
     (fs d = Some Directory \<or> d = [] \<or>
      (case made of
         None \<Rightarrow> False
       | Some folder \<Rightarrow>
           d = (if list_all (\<lambda>ch. ch = CHR ''/'') folder then folder else rstrip_sep folder)))"

text \<open>
  \<open>sqlite3.connect\<close> on a path. Where there is no file it makes an empty database, which
  takes the directory of the path to exist; a directory cannot be opened; any file can, and
  what it holds shows at the first statement.
\<close>

definition connect :: "files \<Rightarrow> string option \<Rightarrow> string \<Rightarrow> error + files" where
  "connect fs made p =
     (case fs p of
        None \<Rightarrow>
          if directory_exists fs made (os_path_dirname p) then Inr (fs(p \<mapsto> Database None))
          else Inl OperationalError
      | Some Directory \<Rightarrow> Inl OperationalError
      | Some NotADatabase \<Rightarrow> Inr fs
      | Some (Database t) \<Rightarrow> Inr fs)"

text \<open>
  The four SQL statements of the program, run on the file a connection is open on. Every
  statement is committed by the code right after it ran, so a statement acts on the store
  directly.
\<close>

definition create_table_if_not_exists :: "files \<Rightarrow> string \<Rightarrow> error + files" where
  "create_table_if_not_exists fs p =
     (case fs p of
        None \<Rightarrow> Inl OperationalError
      | Some Directory \<Rightarrow> Inl OperationalError
      | Some NotADatabase \<Rightarrow> Inl DatabaseError
      | Some (Database None) \<Rightarrow> Inr (fs(p \<mapsto> Database (Some [])))
      | Some (Database (Some rows)) \<Rightarrow> Inr fs)"

definition select_all :: "files \<Rightarrow> string \<Rightarrow> error + row list" where
  "select_all fs p =
     (case fs p of
        None \<Rightarrow> Inl OperationalError
      | Some Directory \<Rightarrow> Inl OperationalError
      | Some NotADatabase \<Rightarrow> Inl DatabaseError
      | Some (Database None) \<Rightarrow> Inl OperationalError
      | Some (Database (Some rows)) \<Rightarrow> Inr rows)"

definition insert_into :: "files \<Rightarrow> string \<Rightarrow> row \<Rightarrow> error + files" where
  "insert_into fs p r =
     (case fs p of
        None \<Rightarrow> Inl OperationalError
      | Some Directory \<Rightarrow> Inl OperationalError
      | Some NotADatabase \<Rightarrow> Inl DatabaseError
      | Some (Database None) \<Rightarrow> Inl OperationalError
      | Some (Database (Some rows)) \<Rightarrow> Inr (fs(p \<mapsto> Database (Some (rows @ [r])))))"

definition delete_from :: "files \<Rightarrow> string \<Rightarrow> error + files" where
  "delete_from fs p =
     (case fs p of
        None \<Rightarrow> Inl OperationalError
      | Some Directory \<Rightarrow> Inl OperationalError
      | Some NotADatabase \<Rightarrow> Inl DatabaseError
      | Some (Database None) \<Rightarrow> Inl OperationalError
      | Some (Database (Some rows)) \<Rightarrow> Inr (fs(p \<mapsto> Database (Some []))))"

section \<open>CustomTextEdit and Worker\<close>

text \<open>
  What \<open>QTextEdit\<close> makes of a string it is given by \<open>insertPlainText\<close>, as
  \<open>toPlainText\<close> returns it: a carriage return followed by a line feed, and a carriage
  return alone, are one line break, returned as a line feed; a no-break space is returned
  as a space.
\<close>

fun plain_text :: "string \<Rightarrow> string" where
  "plain_text [] = []"
| "plain_text [x] =
     [if x = CHR 0x0D then CHR 0x0A else if x = CHR 0xA0 then CHR '' '' else x]"
| "plain_text (x # y # ys) =
     (if x = CHR 0x0D \<and> y = CHR 0x0A then CHR 0x0A # plain_text ys
      else (if x = CHR 0x0D then CHR 0x0A else if x = CHR 0xA0 then CHR '' '' else x)
             # plain_text (y # ys))"

text \<open>
  \<open>CustomTextEdit.write\<close>: \<open>insertPlainText(text + '\n\n')\<close>. The widget is the text it
  shows, and the cursor is at its end.
\<close>

definition CustomTextEdit_write :: "string \<Rightarrow> string \<Rightarrow> string" where
  "CustomTextEdit_write widget text = widget @ plain_text (text @ [CHR 0x0A, CHR 0x0A])"

text \<open>\<open>list(response)\<close> on a string: the list of its one-element strings.\<close>

definition list_str :: "string \<Rightarrow> string list" where
  "list_str s = map (\<lambda>ch. [ch]) s"

definition Worker_init :: "g4f_model \<Rightarrow> turn list \<Rightarrow> Worker" where
  "Worker_init m h =
     \<lparr>worker_model = m, worker_message_history = h, worker_output_text = []\<rparr>"

text \<open>
  \<open>Worker.run\<close>. What \<open>g4f.ChatCompletion.create\<close> does is an input: \<open>Inr resp\<close> when
  it returns the string \<open>resp\<close>, \<open>Inl e\<close> when it raises an exception whose \<open>str\<close> is
  \<open>e\<close>. The result is the list emitted on \<open>finished\<close> (the same list goes to the signal
  \<open>update_ui\<close> of the worker, which nothing is connected to) and the worker afterwards.
\<close>

definition run :: "string + string \<Rightarrow> Worker \<Rightarrow> string list \<times> Worker" where
  "run outcome w =
     (case outcome of
        Inr resp \<Rightarrow> (list_str resp, w)
      | Inl e \<Rightarrow>
          (let error_message = ''Error generating response: '' @ e
           in ([error_message],
               w\<lparr>worker_output_text := CustomTextEdit_write (worker_output_text w) error_message\<rparr>)))"

section \<open>CreateDatabaseDialog\<close>

text \<open>
  \<open>CreateDatabaseDialog.create_database\<close> on the text of the name field: the message box
  it shows, whether it accepts the dialog, and the store afterwards. The connection is
  opened after \<open>os.makedirs\<close> has made \<open>folder_path\<close>.
\<close>

definition create_database ::
  "string \<Rightarrow> string \<Rightarrow> files \<Rightarrow> error + message_box \<times> bool \<times> files" where
  "create_database folder_path db_input fs =
     (if db_input = [] then
        Inr (Warning ''Error'' ''Please enter a database name.'', False, fs)
      else
        let db_name = db_input @ ''.db'';
            database_path = os_path_join folder_path db_name
        in if \<not> os_path_exists fs database_path then
             (case connect fs (Some folder_path) database_path of
                Inl e \<Rightarrow> Inl e
              | Inr fs0 \<Rightarrow>
                  (case create_table_if_not_exists fs0 database_path of
                     Inl e \<Rightarrow> Inl e
                   | Inr fs' \<Rightarrow>
                       Inr (Information ''Database Created'' ''Database created successfully.'',
                            True, fs')))
           else
             Inr (Critical ''Error'' ''Database already exists. Please choose another name.'',
                  False, fs))"

text \<open>
  \<open>exec\<close> of the dialog. The user presses Create once for each name of the list, in that
  order, and closes the dialog after the last one; the dialog ends at the first name that
  \<open>create_database\<close> accepts. The result says whether the dialog was accepted, gives the
  text of the name field, the message boxes shown and the store afterwards.
\<close>

fun CreateDatabaseDialog_exec ::
  "string \<Rightarrow> string list \<Rightarrow> files \<Rightarrow> error + bool \<times> string \<times> message_box list \<times> files" where
  "CreateDatabaseDialog_exec folder_path [] fs = Inr (False, [], [], fs)"
| "CreateDatabaseDialog_exec folder_path (db_input # rest) fs =
     (case create_database folder_path db_input fs of
        Inl e \<Rightarrow> Inl e
      | Inr (box, accepted, fs') \<Rightarrow>
          if accepted then Inr (True, db_input, [box], fs')
          else
            (case CreateDatabaseDialog_exec folder_path rest fs' of
               Inl e \<Rightarrow> Inl e
             | Inr (result, txt, boxes, fs'') \<Rightarrow>
                 Inr (result, if rest = [] then db_input else txt, box # boxes, fs'')))"

section \<open>ChatApp\<close>

text \<open>
  \<open>ChatApp.__init__\<close>, on a given store of files. The first key of \<open>models\<close> is the
  current text of the combo box.
\<close>

definition ChatApp_init :: "files \<Rightarrow> ChatApp" where
  "ChatApp_init fs =
     \<lparr>current_prompt = [],
      message_history = [],
      conn = None,
      c = None,
      output_text =
        CustomTextEdit_write [] ''Please specify the folder and the database before the start!'',
      database_folder = None,
      database_path = None,
      prompt_input = [],
      model_combo = gpt_35_turbo,
      worker = Worker_init gpt_35_turbo [],
      long_running_task_timer = False,
      threads = [],
      started = [],
      modal = [],
      files = fs\<rparr>"

text \<open>\<open>self.output_text.write(text)\<close>.\<close>

definition output_write :: "ChatApp \<Rightarrow> string \<Rightarrow> ChatApp" where
  "output_write s text = s\<lparr>output_text := CustomTextEdit_write (output_text s) text\<rparr>"

text \<open>
  \<open>select_folder_clicked\<close>; \<open>dir\<close> is what the folder dialog returns, the empty string
  when it is cancelled.
\<close>

definition select_folder_clicked :: "ChatApp \<Rightarrow> string \<Rightarrow> ChatApp" where
  "select_folder_clicked s dir =
     (let s1 = s\<lparr>database_folder := Some dir\<rparr>
      in if \<not> truthy (database_folder s1) then s1
         else output_write s1 (''Selected folder: '' @ dir))"

definition turn_of_row :: "row \<Rightarrow> turn" where
  "turn_of_row r =
     (case r of (r0, r1, r2, r3) \<Rightarrow> \<lparr>date = r0, role = r1, content = r2, response = r3\<rparr>)"

text \<open>
  \<open>load_database_clicked\<close>. The folder \<open>select_folder_clicked\<close> called \<open>os.makedirs\<close>
  on is \<open>database_folder\<close>.
\<close>

definition load_database_clicked :: "ChatApp \<Rightarrow> string \<Rightarrow> error + ChatApp" where
  "load_database_clicked s path =
     (let s1 = s\<lparr>database_path := Some path, conn := Some path, c := Some path\<rparr>
      in case connect (files s1) (database_folder s1) path of
           Inl e \<Rightarrow> Inl e
         | Inr fs0 \<Rightarrow>
             (case create_table_if_not_exists fs0 path of
                Inl e \<Rightarrow> Inl e
              | Inr fs \<Rightarrow>
                  (case select_all fs path of
                     Inl e \<Rightarrow> Inl e
                   | Inr rows \<Rightarrow>
                       Inr (output_write
                              (s1\<lparr>files := fs, message_history := map turn_of_row rows\<rparr>)
                              (''Using database: '' @ path)))))"

text \<open>
  \<open>select_database_clicked\<close>; \<open>selected_database\<close> is the first component of what the
  file dialog returns, the empty string when it is cancelled.
\<close>

definition select_database_clicked :: "ChatApp \<Rightarrow> string \<Rightarrow> error + ChatApp" where
  "select_database_clicked s selected_database =
     (if \<not> truthy (database_folder s) then Inr (output_write s ''Please select a folder first.'')
      else if selected_database \<noteq> [] then
        load_database_clicked (s\<lparr>database_path := Some selected_database\<rparr>) selected_database
      else Inr s)"

text \<open>\<open>create_database_clicked\<close>; \<open>attempts\<close> are the names the user tries in the dialog.\<close>

definition create_database_clicked :: "ChatApp \<Rightarrow> string list \<Rightarrow> error + ChatApp" where
  "create_database_clicked s attempts =
     (if \<not> truthy (database_folder s) then Inr (output_write s ''Please select a folder first.'')
      else
        let folder = the (database_folder s)
        in case CreateDatabaseDialog_exec folder attempts (files s) of
             Inl e \<Rightarrow> Inl e
           | Inr (result, db_name_input, boxes, fs) \<Rightarrow>
               let s1 = s\<lparr>files := fs, modal := modal s @ boxes\<rparr>
               in if result then
                    if db_name_input = [] then
                      Inr (output_write s1 ''Please enter a database name.'')
                    else
                      let db_name = db_name_input @ ''.db'';
                          path = os_path_join folder db_name
                      in load_database_clicked (s1\<lparr>database_path := Some path\<rparr>) path
                  else Inr s1)"

text \<open>
  \<open>clear_database_clicked\<close>; \<open>selected_database\<close> as above, \<open>confirmation\<close> is True when
  the user answers Yes.
\<close>

definition clear_database_clicked :: "ChatApp \<Rightarrow> string \<Rightarrow> bool \<Rightarrow> error + ChatApp" where
  "clear_database_clicked s selected_database confirmation =
     (if \<not> truthy (database_folder s) then Inr (output_write s ''Please select a folder first.'')
      else if selected_database = [] then Inr (output_write s ''No database selected.'')
      else
        let question =
              Question ''Clear Database''
                (''Are you sure you want to clear the database at'' @ [CHR 0x0A]
                   @ selected_database @ ''?'');
            s1 = s\<lparr>database_path := Some selected_database, modal := modal s @ [question]\<rparr>
        in if confirmation then
             (case delete_from (files s1) selected_database of
                Inl e \<Rightarrow> Inl e
              | Inr fs \<Rightarrow> Inr (output_write (s1\<lparr>files := fs\<rparr>) ''Database cleared.''))
           else Inr (output_write s1 ''Database not cleared.''))"

text \<open>
  \<open>submit_clicked\<close>; \<open>now\<close> is the formatted time. The dictionary \<open>new_message\<close> has the
  one-blank string as its response.
\<close>

definition submit_clicked :: "ChatApp \<Rightarrow> string \<Rightarrow> ChatApp" where
  "submit_clicked s now =
     (if \<not> truthy (database_folder s) then output_write s ''Please select a folder first.''
      else if \<not> truthy (database_path s) then output_write s ''Please select a database first.''
      else
        let s1 = output_write s ''Prompt is submitted. Wait for response generation.'';
            s2 = s1\<lparr>worker := (worker s1)\<lparr>worker_model := model_combo s1\<rparr>\<rparr>;
            s3 = s2\<lparr>current_prompt := prompt_input s2\<rparr>;
            new_message =
              \<lparr>date = now, role = ''helpful assistant'', content = current_prompt s3,
               response = '' ''\<rparr>
        in s3\<lparr>message_history := message_history s3 @ [new_message],
              long_running_task_timer := True\<rparr>)"

text \<open>\<open>generate_response\<close>: a new worker on the current history, started as a thread.\<close>

definition generate_response :: "ChatApp \<Rightarrow> ChatApp" where
  "generate_response s =
     (let w = Worker_init (model_combo s) (message_history s)
      in s\<lparr>worker := w, threads := threads s @ [w], started := started s @ [w]\<rparr>)"

definition perform_long_running_task :: "ChatApp \<Rightarrow> ChatApp" where
  "perform_long_running_task s = generate_response (s\<lparr>long_running_task_timer := False\<rparr>)"

text \<open>The loop of \<open>update_ui\<close> that joins the list it receives.\<close>

definition overall_message :: "string list \<Rightarrow> string" where
  "overall_message resp = foldl (\<lambda>acc message. acc @ message) [] resp"

text \<open>
  \<open>update_ui\<close> on the list \<open>resp\<close> a worker emitted. \<open>message_info\<close> is appended to the
  history and then assigned its response again, which the list sees too, since it holds the
  same dictionary.
\<close>

definition update_ui :: "ChatApp \<Rightarrow> string list \<Rightarrow> string \<Rightarrow> error + ChatApp" where
  "update_ui s resp now =
     (let msg = overall_message resp;
          s1 = output_write s msg;
          message_info =
            \<lparr>date = now, role = ''helpful assistant'', content = current_prompt s1,
             response = msg\<rparr>;
          s2 = s1\<lparr>message_history := message_history s1 @ [message_info]\<rparr>;
          message_info' = message_info\<lparr>response := msg\<rparr>;
          s3 = s2\<lparr>message_history :=
                   (message_history s2)[length (message_history s2) - 1 := message_info']\<rparr>
      in case c s3 of
           None \<Rightarrow> Inl AttributeError
         | Some path \<Rightarrow>
             (case insert_into (files s3) path
                     (date message_info', role message_info', content message_info',
                      response message_info') of
                Inl e \<Rightarrow> Inl e
              | Inr fs \<Rightarrow> Inr (s3\<lparr>files := fs\<rparr>)))"

section \<open>The events of the window\<close>

text \<open>
  What the event loop delivers to the window: the clicks with what the user chose in the
  dialogs, the edits of the two input widgets, the two clear buttons, the timeout of the
  timer, and the signal \<open>finished\<close> of a worker thread. \<open>WorkerFinished outcome now\<close> is
  the oldest running thread finishing, with the outcome of its call of the provider; what
  the worker wrote to its own text widget, which is never shown, goes with the thread.
  A timeout is delivered only while the timer is active, and the timer, started with
  interval 0 and not single-shot, stays active until \<open>perform_long_running_task\<close> stops it.
\<close>

datatype event =
    SelectFolder string
  | CreateDatabase "string list"
  | SelectDatabase string
  | ClearDatabase string bool
  | SetPrompt string
  | SelectModel string
  | ClearInput
  | ClearOutput
  | Submit string
  | Timeout
  | WorkerFinished "string + string" string

definition step :: "ChatApp \<Rightarrow> event \<Rightarrow> error + ChatApp" where
  "step s ev =
     (case ev of
        SelectFolder dir \<Rightarrow> Inr (select_folder_clicked s dir)
      | CreateDatabase attempts \<Rightarrow> create_database_clicked s attempts
      | SelectDatabase selected_database \<Rightarrow> select_database_clicked s selected_database
      | ClearDatabase selected_database confirmation \<Rightarrow>
          clear_database_clicked s selected_database confirmation
      | SetPrompt txt \<Rightarrow> Inr (s\<lparr>prompt_input := txt\<rparr>)
      | SelectModel key \<Rightarrow>
          (case map_of models key of
             None \<Rightarrow> Inr s
           | Some m \<Rightarrow> Inr (s\<lparr>model_combo := m\<rparr>))
      | ClearInput \<Rightarrow> Inr (s\<lparr>prompt_input := []\<rparr>)
      | ClearOutput \<Rightarrow> Inr (s\<lparr>output_text := []\<rparr>)
      | Submit now \<Rightarrow> Inr (submit_clicked s now)
      | Timeout \<Rightarrow>
          (if long_running_task_timer s then Inr (perform_long_running_task s) else Inr s)
      | WorkerFinished outcome now \<Rightarrow>
          (case threads s of
             [] \<Rightarrow> Inr s
           | w # ws \<Rightarrow> update_ui (s\<lparr>threads := ws\<rparr>) (fst (run outcome w)) now))"

text \<open>A sequence of events, stopping at the first uncaught exception.\<close>

fun steps :: "ChatApp \<Rightarrow> event list \<Rightarrow> error + ChatApp" where
  "steps s [] = Inr s"
| "steps s (ev # evs) = (case step s ev of Inl e \<Rightarrow> Inl e | Inr s' \<Rightarrow> steps s' evs)"

section \<open>States used as concrete inputs\<close>

text \<open>
  The window as \<open>load_database_clicked\<close> leaves it on a database at \<open>path\<close> holding
  \<open>rows\<close>, in a store with no other file, with \<open>folder\<close> selected before.
\<close>

definition loaded_app :: "string \<Rightarrow> string \<Rightarrow> row list \<Rightarrow> ChatApp" where
  "loaded_app folder path rows =
     (ChatApp_init [path \<mapsto> Database (Some rows)])
       \<lparr>database_folder := Some folder, database_path := Some path,
        conn := Some path, c := Some path, message_history := map turn_of_row rows\<rparr>"

definition example_app :: ChatApp where
  "example_app =
     loaded_app ''/tmp'' ''/tmp/test.db'' [(''t0'', ''helpful assistant'', ''hi'', ''ho'')]"

section \<open>Facts about the handlers\<close>

lemma dropWhile_append_all:
  "(\<And>x. x \<in> set xs \<Longrightarrow> P x) \<Longrightarrow> dropWhile P (xs @ ys) = dropWhile P ys"
  by (induction xs) auto

lemma rstrip_sep_snoc:
  "rstrip_sep (xs @ [x]) = (if x = CHR ''/'' then rstrip_sep xs else xs @ [x])"
  by (simp add: rstrip_sep_def)

lemma rstrip_sep_id: "xs \<noteq> [] \<Longrightarrow> last xs \<noteq> CHR ''/'' \<Longrightarrow> rstrip_sep xs = xs"
  by (cases xs rule: rev_cases) (simp_all add: rstrip_sep_snoc)

text \<open>
  The directory of a database that \<open>create_database\<close> names in its folder is the folder
  that \<open>os.makedirs\<close> has made.
\<close>

lemma directory_exists_join:
  assumes "folder \<noteq> []" and "name \<noteq> []" and "CHR ''/'' \<notin> set name"
  shows "directory_exists fs (Some folder) (os_path_dirname (os_path_join folder name))"
proof -
  have h: "hd name \<noteq> CHR ''/''"
    using assms(2,3) by (cases name) auto
  have n: "\<And>zs. dropWhile (\<lambda>ch. ch \<noteq> CHR ''/'') (rev name @ zs)
      = dropWhile (\<lambda>ch. ch \<noteq> CHR ''/'') zs"
    by (rule dropWhile_append_all) (use assms(3) in auto)
  show ?thesis
  proof (cases "last folder = CHR ''/''")
    case True
    then obtain ys where f: "folder = ys @ [CHR ''/'']"
      using assms(1) by (metis append_butlast_last_id)
    have j: "os_path_join folder name = folder @ name"
      using True h by (simp add: os_path_join_def)
    have hd: "rev (dropWhile (\<lambda>ch. ch \<noteq> CHR ''/'') (rev (folder @ name))) = folder"
      by (simp add: n f)
    have d: "os_path_dirname (folder @ name)
        = (if list_all (\<lambda>ch. ch = CHR ''/'') folder then folder else rstrip_sep folder)"
      unfolding os_path_dirname_def Let_def hd using assms(1) by simp
    show ?thesis
      unfolding j d by (simp add: directory_exists_def)
  next
    case False
    have j: "os_path_join folder name = folder @ ''/'' @ name"
      using False h assms(1) by (simp add: os_path_join_def)
    have hd: "rev (dropWhile (\<lambda>ch. ch \<noteq> CHR ''/'') (rev (folder @ ''/'' @ name)))
        = folder @ ''/''"
      by (simp add: n)
    have "last folder \<in> set folder"
      using assms(1) by simp
    then have na: "\<not> list_all (\<lambda>ch. ch = CHR ''/'') folder"
      using False by (auto simp: list_all_iff)
    have r: "rstrip_sep (folder @ ''/'') = folder"
      using rstrip_sep_id [OF assms(1) False] by (simp add: rstrip_sep_snoc)
    have d: "os_path_dirname (folder @ ''/'' @ name) = folder"
      unfolding os_path_dirname_def Let_def hd using na by (simp add: r)
    show ?thesis
      unfolding j d using na
      by (simp add: directory_exists_def rstrip_sep_id [OF assms(1) False])
  qed
qed




lemma foldl_append_list_str:
  "foldl (\<lambda>acc message. acc @ message) a (list_str s) = a @ s"
  by (induction s arbitrary: a) (simp_all add: list_str_def)

lemma overall_message_list_str: "overall_message (list_str s) = s"
  by (simp add: overall_message_def foldl_append_list_str)

lemma overall_message_single: "overall_message [m] = m"
  by (simp add: overall_message_def)

lemma fst_run_Inr: "fst (run (Inr r) w) = list_str r"
  by (simp add: run_def)

lemma fst_run_Inl: "fst (run (Inl e) w) = [''Error generating response: '' @ e]"
  by (simp add: run_def Let_def)

text \<open>
  \<open>update_ui\<close> on a window whose cursor is open on a database with the table: it writes
  the joined text, appends one dictionary to the history and one row to the table.
\<close>

lemma update_ui_loaded:
  assumes "c s = Some p" and "files s p = Some (Database (Some rows))"
  shows "update_ui s resp now =
    Inr (s\<lparr>output_text := CustomTextEdit_write (output_text s) (overall_message resp),
           message_history := message_history s @
             [\<lparr>date = now, role = ''helpful assistant'', content = current_prompt s,
               response = overall_message resp\<rparr>],
           files := (files s)(p \<mapsto> Database (Some (rows @
             [(now, ''helpful assistant'', current_prompt s, overall_message resp)])))\<rparr>)"
  using assms by (simp add: update_ui_def Let_def output_write_def insert_into_def)

text \<open>\<open>load_database_clicked\<close> on a database with the table reads its rows in order.\<close>

lemma load_database_clicked_table:
  assumes "files s p = Some (Database (Some rows))"
  shows "load_database_clicked s p =
    Inr (s\<lparr>database_path := Some p, conn := Some p, c := Some p,
           message_history := map turn_of_row rows,
           output_text := CustomTextEdit_write (output_text s) (''Using database: '' @ p)\<rparr>)"
  using assms
  by (simp add: load_database_clicked_def Let_def output_write_def connect_def
      create_table_if_not_exists_def select_all_def)

lemma steps_single: "steps s [ev] = step s ev"
  by (simp split: sum.splits)

lemma steps_append:
  "steps s (xs @ ys) = (case steps s xs of Inl e \<Rightarrow> Inl e | Inr s' \<Rightarrow> steps s' ys)"
  by (induction xs arbitrary: s) (auto split: sum.splits)

text \<open>A worker's signal arriving at a window with a database loaded.\<close>

lemma step_WorkerFinished_loaded:
  assumes "threads s \<noteq> []" and "c s = Some p" and "files s p = Some (Database (Some rows))"
  shows "step s (WorkerFinished outcome now) =
    Inr (s\<lparr>threads := tl (threads s),
           output_text := CustomTextEdit_write (output_text s)
             (overall_message (fst (run outcome (hd (threads s))))),
           message_history := message_history s @
             [\<lparr>date = now, role = ''helpful assistant'', content = current_prompt s,
               response = overall_message (fst (run outcome (hd (threads s))))\<rparr>],
           files := (files s)(p \<mapsto> Database (Some (rows @
             [(now, ''helpful assistant'', current_prompt s,
               overall_message (fst (run outcome (hd (threads s)))))])))\<rparr>)"
proof (cases "threads s")
  case Nil
  with assms show ?thesis by simp
next
  case (Cons w ws)
  have a: "c (s\<lparr>threads := ws\<rparr>) = Some p"
    "files (s\<lparr>threads := ws\<rparr>) p = Some (Database (Some rows))"
    using assms by simp_all
  show ?thesis
    using Cons by (simp add: step_def update_ui_loaded [OF a])
qed

text \<open>A submit that passes both checks, followed by the timeout of the timer it started.\<close>

lemma steps_submit:
  assumes "truthy (database_folder s)" and "truthy (database_path s)"
  shows "steps s [Submit now, Timeout] =
     Inr (s\<lparr>output_text := CustomTextEdit_write (output_text s)
                ''Prompt is submitted. Wait for response generation.'',
            current_prompt := prompt_input s,
            message_history := message_history s @
              [\<lparr>date = now, role = ''helpful assistant'', content = prompt_input s,
                response = '' ''\<rparr>],
            long_running_task_timer := False,
            worker := Worker_init (model_combo s) (message_history s @
              [\<lparr>date = now, role = ''helpful assistant'', content = prompt_input s,
                response = '' ''\<rparr>]),
            threads := threads s @ [Worker_init (model_combo s) (message_history s @
              [\<lparr>date = now, role = ''helpful assistant'', content = prompt_input s,
                response = '' ''\<rparr>])],
            started := started s @ [Worker_init (model_combo s) (message_history s @
              [\<lparr>date = now, role = ''helpful assistant'', content = prompt_input s,
                response = '' ''\<rparr>])]\<rparr>)"
  using assms
  by (simp add: step_def submit_clicked_def Let_def output_write_def
      perform_long_running_task_def generate_response_def)

text \<open>
  One exchange on a window with a folder selected and a database loaded: the prompt is
  typed, submitted, the timer fires, the worker finishes. It appends two dictionaries to the
  history and one row to the table, and the window can take the next exchange.
\<close>

lemma exchange_steps:
  assumes "truthy (database_folder s)" and "truthy (database_path s)"
    and "c s = Some p" and "files s p = Some (Database (Some rows))"
  shows "\<exists>s'. steps s [SetPrompt prompt, Submit t1, Timeout, WorkerFinished outcome t2] = Inr s' \<and>
     truthy (database_folder s') \<and> truthy (database_path s') \<and> c s' = Some p \<and>
     (\<exists>w. files s' p = Some (Database (Some (rows @
        [(t2, ''helpful assistant'', prompt, overall_message (fst (run outcome w)))]))) \<and>
       message_history s' = message_history s @
        [\<lparr>date = t1, role = ''helpful assistant'', content = prompt, response = '' ''\<rparr>,
         \<lparr>date = t2, role = ''helpful assistant'', content = prompt,
           response = overall_message (fst (run outcome w))\<rparr>])"
proof -
  let ?s0 = "s\<lparr>prompt_input := prompt\<rparr>"
  have a0: "truthy (database_folder ?s0)" "truthy (database_path ?s0)"
    using assms by simp_all
  have "\<exists>s1. steps ?s0 [Submit t1, Timeout] = Inr s1 \<and>
      threads s1 \<noteq> [] \<and> c s1 = Some p \<and>
      files s1 p = Some (Database (Some rows)) \<and>
      truthy (database_folder s1) \<and> truthy (database_path s1) \<and>
      current_prompt s1 = prompt \<and>
      message_history s1 = message_history s @
        [\<lparr>date = t1, role = ''helpful assistant'', content = prompt, response = '' ''\<rparr>]"
    unfolding steps_submit [OF a0] using assms by simp
  then obtain s1 where s1: "steps ?s0 [Submit t1, Timeout] = Inr s1"
    and t1: "threads s1 \<noteq> []" and c1: "c s1 = Some p"
    and f1: "files s1 p = Some (Database (Some rows))"
    and d1: "truthy (database_folder s1)" "truthy (database_path s1)"
    and p1: "current_prompt s1 = prompt"
    and m1: "message_history s1 = message_history s @
        [\<lparr>date = t1, role = ''helpful assistant'', content = prompt, response = '' ''\<rparr>]"
    by blast
  have e: "steps s [SetPrompt prompt, Submit t1, Timeout, WorkerFinished outcome t2]
      = step s1 (WorkerFinished outcome t2)"
  proof -
    have "steps s ([SetPrompt prompt] @ [Submit t1, Timeout] @ [WorkerFinished outcome t2])
      = step s1 (WorkerFinished outcome t2)"
      unfolding steps_append using s1
      by (simp add: step_def split: sum.splits)
    then show ?thesis by simp
  qed
  show ?thesis
    unfolding e step_WorkerFinished_loaded [OF t1 c1 f1]
    using d1 p1 m1 c1 by auto
qed








text \<open>The fields of the example window that the hypotheses below ask for.\<close>

lemma example_app_folder: "truthy (database_folder example_app)"
  by (simp add: example_app_def loaded_app_def ChatApp_init_def truthy_def)

lemma example_app_path: "truthy (database_path example_app)"
  by (simp add: example_app_def loaded_app_def ChatApp_init_def truthy_def)

lemma example_app_c: "c example_app = Some ''/tmp/test.db''"
  by (simp add: example_app_def loaded_app_def ChatApp_init_def)

lemma example_app_files:
  "files example_app ''/tmp/test.db''
     = Some (Database (Some [(''t0'', ''helpful assistant'', ''hi'', ''ho'')]))"
  by (simp add: example_app_def loaded_app_def ChatApp_init_def)

text \<open>What the handlers leave as it is: the prompt, the timer, the workers started.\<close>

lemma load_database_clicked_frame:
  assumes "load_database_clicked s q = Inr s'"
  shows "started s' = started s \<and> long_running_task_timer s' = long_running_task_timer s \<and>
     current_prompt s' = current_prompt s"
  using assms
  by (auto simp: load_database_clicked_def Let_def output_write_def split: sum.splits)

lemma update_ui_frame:
  assumes "update_ui s resp now = Inr s'"
  shows "started s' = started s \<and> long_running_task_timer s' = long_running_task_timer s \<and>
     current_prompt s' = current_prompt s"
  using assms
  by (auto simp: update_ui_def Let_def output_write_def split: sum.splits option.splits)

lemma clear_database_clicked_frame:
  assumes "clear_database_clicked s q confirmation = Inr s'"
  shows "started s' = started s \<and> long_running_task_timer s' = long_running_task_timer s \<and>
     current_prompt s' = current_prompt s"
  using assms
  by (auto simp: clear_database_clicked_def Let_def output_write_def
      split: sum.splits if_splits)

lemma create_database_clicked_frame:
  assumes "create_database_clicked s attempts = Inr s'"
  shows "started s' = started s \<and> long_running_task_timer s' = long_running_task_timer s \<and>
     current_prompt s' = current_prompt s"
  using assms
  by (auto simp: create_database_clicked_def Let_def output_write_def
      split: sum.splits if_splits prod.splits dest!: load_database_clicked_frame)

lemma select_database_clicked_frame:
  assumes "select_database_clicked s q = Inr s'"
  shows "started s' = started s \<and> long_running_task_timer s' = long_running_task_timer s \<and>
     current_prompt s' = current_prompt s"
  using assms
  by (auto simp: select_database_clicked_def output_write_def
      split: if_splits dest!: load_database_clicked_frame)

lemma step_started:
  assumes "step s ev = Inr s'" and "ev \<noteq> Timeout"
  shows "started s' = started s \<and> (long_running_task_timer s \<longrightarrow> long_running_task_timer s')"
proof (cases ev)
  case (SelectFolder dir)
  with assms show ?thesis
    by (auto simp: step_def select_folder_clicked_def Let_def output_write_def)
next
  case (CreateDatabase attempts)
  with assms show ?thesis
    by (auto simp: step_def dest!: create_database_clicked_frame)
next
  case (SelectDatabase q)
  with assms show ?thesis
    by (auto simp: step_def dest!: select_database_clicked_frame)
next
  case (ClearDatabase q confirmation)
  with assms show ?thesis
    by (auto simp: step_def dest!: clear_database_clicked_frame)
next
  case (SetPrompt tx)
  with assms show ?thesis by (auto simp: step_def)
next
  case (SelectModel key)
  with assms show ?thesis by (auto simp: step_def split: option.splits)
next
  case ClearInput
  with assms show ?thesis by (auto simp: step_def)
next
  case ClearOutput
  with assms show ?thesis by (auto simp: step_def)
next
  case (Submit now)
  with assms show ?thesis
    by (auto simp: step_def submit_clicked_def Let_def output_write_def)
next
  case Timeout
  with assms show ?thesis by simp
next
  case (WorkerFinished outcome now)
  with assms show ?thesis
    by (auto simp: step_def split: list.splits dest!: update_ui_frame)
qed

lemma steps_started:
  assumes "steps s evs = Inr s'" and "Timeout \<notin> set evs"
  shows "started s' = started s \<and> (long_running_task_timer s \<longrightarrow> long_running_task_timer s')"
  using assms
proof (induction evs arbitrary: s)
  case Nil
  then show ?case by simp
next
  case (Cons ev evs)
  from Cons.prems obtain s1 where s1: "step s ev = Inr s1" and r: "steps s1 evs = Inr s'"
    by (auto split: sum.splits)
  have "ev \<noteq> Timeout" "Timeout \<notin> set evs"
    using Cons.prems(2) by auto
  then show ?case
    using step_started [OF s1] Cons.IH [OF r] by auto
qed




text \<open>The timeout of an active timer starts one worker and stops the timer.\<close>

lemma step_Timeout_active:
  assumes "long_running_task_timer s"
  shows "step s Timeout =
     Inr (s\<lparr>long_running_task_timer := False,
            worker := Worker_init (model_combo s) (message_history s),
            threads := threads s @ [Worker_init (model_combo s) (message_history s)],
            started := started s @ [Worker_init (model_combo s) (message_history s)]\<rparr>)"
  using assms
  by (simp add: step_def perform_long_running_task_def generate_response_def Let_def)

text \<open>
  On a window with a folder selected and a database with the table loaded, a submit whose
  call of the provider raises an exception with message \<open>m\<close> ends with a row inserted,
  and a dictionary last in the history, whose response is \<open>Error generating response: \<close>
  followed by \<open>m\<close>; the text depends on \<open>m\<close> alone.
\<close>

lemma failure_stored_as_response:
  assumes "truthy (database_folder s)" and "truthy (database_path s)"
    and "c s = Some p" and "files s p = Some (Database (Some rows))"
  shows "fst (run (Inl m) w) = [''Error generating response: '' @ m] \<and>
    (\<exists>s'. steps s [Submit t1, Timeout, WorkerFinished (Inl m) t2] = Inr s' \<and>
       files s' p = Some (Database (Some (rows @
         [(t2, ''helpful assistant'', prompt_input s, ''Error generating response: '' @ m)]))) \<and>
       last (message_history s') =
         \<lparr>date = t2, role = ''helpful assistant'', content = prompt_input s,
          response = ''Error generating response: '' @ m\<rparr>)"
proof -
  have e: "steps s [SetPrompt (prompt_input s), Submit t1, Timeout, WorkerFinished (Inl m) t2]
     = steps s [Submit t1, Timeout, WorkerFinished (Inl m) t2]"
    by (simp add: step_def)
  show ?thesis
    using exchange_steps [OF assms, of "prompt_input s" t1 "Inl m" t2]
    unfolding e by (auto simp: fst_run_Inl overall_message_single)
qed

section \<open>The claims\<close>

text \<open>
  C1. On a window with a folder selected and a database with the table loaded, for every
  sequence of exchanges (prompt typed, submit, timeout of the timer, the worker finishing
  with the provider's text \<open>r\<close>), loading the database afterwards gives the turns that
  were in the table before followed by the turns appended, in the order in which they were
  appended.
\<close>

theorem load_returns_append_order:
  assumes "truthy (database_folder s)" and "truthy (database_path s)"
    and "c s = Some p" and "files s p = Some (Database (Some rows))"
  shows "\<exists>s' s''.
     steps s (concat (map (\<lambda>(prompt, t1, r, t2).
               [SetPrompt prompt, Submit t1, Timeout, WorkerFinished (Inr r) t2]) ts)) = Inr s' \<and>
     load_database_clicked s' p = Inr s'' \<and>
     message_history s'' = map turn_of_row rows @
       map (\<lambda>(prompt, t1, r, t2).
             \<lparr>date = t2, role = ''helpful assistant'', content = prompt, response = r\<rparr>) ts"
  using assms
proof (induction ts arbitrary: s rows)
  case Nil
  then show ?case
    by (simp add: load_database_clicked_table)
next
  case (Cons x ts)
  obtain prompt t1 r t2 where x: "x = (prompt, t1, r, t2)"
    by (cases x) auto
  obtain s1 where
    s1: "steps s [SetPrompt prompt, Submit t1, Timeout, WorkerFinished (Inr r) t2] = Inr s1"
    and a: "truthy (database_folder s1)" "truthy (database_path s1)" "c s1 = Some p"
    and f: "files s1 p = Some (Database (Some (rows @ [(t2, ''helpful assistant'', prompt, r)])))"
    using exchange_steps [OF Cons.prems, of prompt t1 "Inr r" t2]
    by (auto simp: fst_run_Inr overall_message_list_str)
  obtain s' s'' where
    "steps s1 (concat (map (\<lambda>(prompt, t1, r, t2).
               [SetPrompt prompt, Submit t1, Timeout, WorkerFinished (Inr r) t2]) ts)) = Inr s'"
    "load_database_clicked s' p = Inr s''"
    "message_history s'' = map turn_of_row (rows @ [(t2, ''helpful assistant'', prompt, r)]) @
       map (\<lambda>(prompt, t1, r, t2).
             \<lparr>date = t2, role = ''helpful assistant'', content = prompt, response = r\<rparr>) ts"
    using Cons.IH [OF a f] by blast
  moreover have "steps s (concat (map (\<lambda>(prompt, t1, r, t2).
               [SetPrompt prompt, Submit t1, Timeout, WorkerFinished (Inr r) t2]) (x # ts)))
     = steps s1 (concat (map (\<lambda>(prompt, t1, r, t2).
               [SetPrompt prompt, Submit t1, Timeout, WorkerFinished (Inr r) t2]) ts))"
    using s1 unfolding x by (simp only: list.map concat.simps prod.case steps_append sum.case)
  ultimately show ?case
    unfolding x by (simp add: turn_of_row_def)
qed

theorem load_returns_append_order_witness:
  "truthy (database_folder example_app) \<and> truthy (database_path example_app) \<and>
   c example_app = Some ''/tmp/test.db'' \<and>
   files example_app ''/tmp/test.db''
     = Some (Database (Some [(''t0'', ''helpful assistant'', ''hi'', ''ho'')])) \<and>
   (\<exists>s' s''.
     steps example_app (concat (map (\<lambda>(prompt, t1, r, t2).
               [SetPrompt prompt, Submit t1, Timeout, WorkerFinished (Inr r) t2])
        [(''a'', ''t1'', ''x'', ''t2''), (''b'', ''t3'', ''y'', ''t4'')])) = Inr s' \<and>
     load_database_clicked s' ''/tmp/test.db'' = Inr s'' \<and>
     message_history s'' =
       map turn_of_row [(''t0'', ''helpful assistant'', ''hi'', ''ho'')] @
       map (\<lambda>(prompt, t1, r, t2).
             \<lparr>date = t2, role = ''helpful assistant'', content = prompt, response = r\<rparr>)
        [(''a'', ''t1'', ''x'', ''t2''), (''b'', ''t3'', ''y'', ''t4'')])"
  by (rule conjI [OF example_app_folder conjI [OF example_app_path conjI [OF example_app_c
        conjI [OF example_app_files
          load_returns_append_order
            [OF example_app_folder example_app_path example_app_c example_app_files]]]]])

text \<open>
  C2. For every state of the database the cursor is open on and every turn: after
  \<open>update_ui\<close> has inserted the turn, a fresh \<open>load_database_clicked\<close> of that database
  gives the rows the table held before followed by the turn inserted (time of the
  insertion, the fixed role, the current prompt, the joined response), so a history that is
  not empty and whose last element is that turn. This holds for the load in the same
  window, and for the load in a window just started on the resulting files, whose history
  is empty before the load: the turn is read back from the table.
\<close>

theorem append_then_load_last:
  assumes "c s = Some p" and "files s p = Some (Database (Some rows))"
  shows "\<exists>s' s'' s'''. update_ui s resp now = Inr s' \<and>
     load_database_clicked s' p = Inr s'' \<and>
     message_history s'' \<noteq> [] \<and>
     last (message_history s'') =
       \<lparr>date = now, role = ''helpful assistant'', content = current_prompt s,
        response = overall_message resp\<rparr> \<and>
     message_history s'' = map turn_of_row rows @
       [\<lparr>date = now, role = ''helpful assistant'', content = current_prompt s,
         response = overall_message resp\<rparr>] \<and>
     load_database_clicked (ChatApp_init (files s')) p = Inr s''' \<and>
     message_history (ChatApp_init (files s')) = [] \<and>
     message_history s''' = map turn_of_row rows @
       [\<lparr>date = now, role = ''helpful assistant'', content = current_prompt s,
         response = overall_message resp\<rparr>]"
proof -
  let ?r = "(now, ''helpful assistant'', current_prompt s, overall_message resp)"
  obtain s' where u: "update_ui s resp now = Inr s'"
    and f: "files s' p = Some (Database (Some (rows @ [?r])))"
    using update_ui_loaded [OF assms, of resp now] by simp
  have f0: "files (ChatApp_init (files s')) p = Some (Database (Some (rows @ [?r])))"
    using f by (simp add: ChatApp_init_def)
  have e: "message_history (ChatApp_init (files s')) = []"
    by (simp add: ChatApp_init_def)
  show ?thesis
    using u e load_database_clicked_table [OF f] load_database_clicked_table [OF f0]
    by (simp add: turn_of_row_def)
qed

theorem append_then_load_last_witness:
  "c example_app = Some ''/tmp/test.db'' \<and>
   files example_app ''/tmp/test.db''
     = Some (Database (Some [(''t0'', ''helpful assistant'', ''hi'', ''ho'')])) \<and>
   (\<exists>s' s'' s'''.
      update_ui example_app [''wor'', ''ld''] ''t1'' = Inr s' \<and>
      load_database_clicked s' ''/tmp/test.db'' = Inr s'' \<and>
      message_history s'' \<noteq> [] \<and>
      last (message_history s'') =
        \<lparr>date = ''t1'', role = ''helpful assistant'', content = current_prompt example_app,
         response = overall_message [''wor'', ''ld'']\<rparr> \<and>
      message_history s'' =
        map turn_of_row [(''t0'', ''helpful assistant'', ''hi'', ''ho'')] @
        [\<lparr>date = ''t1'', role = ''helpful assistant'', content = current_prompt example_app,
          response = overall_message [''wor'', ''ld'']\<rparr>] \<and>
      load_database_clicked (ChatApp_init (files s')) ''/tmp/test.db'' = Inr s''' \<and>
      message_history (ChatApp_init (files s')) = [] \<and>
      message_history s''' =
        map turn_of_row [(''t0'', ''helpful assistant'', ''hi'', ''ho'')] @
        [\<lparr>date = ''t1'', role = ''helpful assistant'', content = current_prompt example_app,
          response = overall_message [''wor'', ''ld'']\<rparr>])"
  by (rule conjI [OF example_app_c conjI [OF example_app_files
        append_then_load_last [OF example_app_c example_app_files]]])

text \<open>
  C3. From the window as it starts, on a store with no file at the path of \<open>test.db\<close> in
  the selected folder: select the folder, create the database with the name \<open>test\<close> (the
  code appends \<open>.db\<close>), type \<open>hello\<close>, submit, let the timer fire and the worker finish
  with the provider returning \<open>world\<close>, then load the database. The history loaded is
  exactly one turn, with content \<open>hello\<close> and response \<open>world\<close>.
\<close>

theorem end_to_end:
  assumes "folder \<noteq> []" and "fs (os_path_join folder ''test.db'') = None"
  shows "\<exists>s'. steps (ChatApp_init fs)
       [SelectFolder folder, CreateDatabase [''test''], SetPrompt ''hello'', Submit t1, Timeout,
        WorkerFinished (Inr ''world'') t2, SelectDatabase (os_path_join folder ''test.db'')]
       = Inr s' \<and>
     message_history s' =
       [\<lparr>date = t2, role = ''helpful assistant'', content = ''hello'', response = ''world''\<rparr>]"
proof -
  let ?p = "os_path_join folder ''test.db''"
  have pne: "?p \<noteq> []"
    by (simp add: os_path_join_def)
  have de: "directory_exists fs (Some folder) (os_path_dirname ?p)"
    by (rule directory_exists_join [OF assms(1)]) simp_all
  have "\<exists>s0. steps (ChatApp_init fs) [SelectFolder folder, CreateDatabase [''test'']] = Inr s0 \<and>
      truthy (database_folder s0) \<and> truthy (database_path s0) \<and> c s0 = Some ?p \<and>
      files s0 ?p = Some (Database (Some []))"
    using assms pne de
    by (simp add: step_def select_folder_clicked_def Let_def truthy_def output_write_def
        create_database_clicked_def create_database_def os_path_exists_def connect_def
        create_table_if_not_exists_def load_database_clicked_def select_all_def ChatApp_init_def)
  then obtain s0 where
    s0: "steps (ChatApp_init fs) [SelectFolder folder, CreateDatabase [''test'']] = Inr s0"
    and a: "truthy (database_folder s0)" "truthy (database_path s0)" "c s0 = Some ?p"
      "files s0 ?p = Some (Database (Some []))"
    by blast
  obtain s1 where
    s1: "steps s0 [SetPrompt ''hello'', Submit t1, Timeout, WorkerFinished (Inr ''world'') t2]
          = Inr s1"
    and b: "truthy (database_folder s1)"
    and f: "files s1 ?p = Some (Database (Some [(t2, ''helpful assistant'', ''hello'', ''world'')]))"
    using exchange_steps [OF a, of "''hello''" t1 "Inr ''world''" t2]
    by (auto simp: fst_run_Inr overall_message_list_str)
  have l: "step s1 (SelectDatabase ?p)
      = load_database_clicked (s1\<lparr>database_path := Some ?p\<rparr>) ?p"
    using b pne by (simp add: step_def select_database_clicked_def)
  have f': "files (s1\<lparr>database_path := Some ?p\<rparr>) ?p
      = Some (Database (Some [(t2, ''helpful assistant'', ''hello'', ''world'')]))"
    using f by simp
  have "steps (ChatApp_init fs)
       ([SelectFolder folder, CreateDatabase [''test'']] @
        [SetPrompt ''hello'', Submit t1, Timeout, WorkerFinished (Inr ''world'') t2] @
        [SelectDatabase ?p]) = step s1 (SelectDatabase ?p)"
    by (simp only: steps_append s0 s1 sum.case steps_single)
  then have "steps (ChatApp_init fs)
       [SelectFolder folder, CreateDatabase [''test''], SetPrompt ''hello'', Submit t1, Timeout,
        WorkerFinished (Inr ''world'') t2, SelectDatabase ?p] = step s1 (SelectDatabase ?p)"
    by (simp only: append_Cons append_Nil)
  then show ?thesis
    unfolding l load_database_clicked_table [OF f'] by (simp add: turn_of_row_def)
qed

theorem end_to_end_witness:
  "''/tmp'' \<noteq> [] \<and> Map.empty (os_path_join ''/tmp'' ''test.db'') = (None :: db_file option) \<and>
   (\<exists>s'. steps (ChatApp_init Map.empty)
       [SelectFolder ''/tmp'', CreateDatabase [''test''], SetPrompt ''hello'', Submit ''t1'',
        Timeout, WorkerFinished (Inr ''world'') ''t2'',
        SelectDatabase (os_path_join ''/tmp'' ''test.db'')] = Inr s' \<and>
     message_history s' =
       [\<lparr>date = ''t2'', role = ''helpful assistant'', content = ''hello'',
         response = ''world''\<rparr>])"
proof -
  have h1: "''/tmp'' \<noteq> []"
    by simp
  have h2: "Map.empty (os_path_join ''/tmp'' ''test.db'') = (None :: db_file option)"
    by simp
  show ?thesis
    by (rule conjI [OF h1 conjI [OF h2 end_to_end [OF h1 h2]]])
qed




text \<open>
  C5 does not hold of the code as it is. \<open>clear_database_clicked\<close> assigns
  \<open>database_path\<close> and opens no cursor on the window, where \<open>select_database_clicked\<close>
  and \<open>create_database_clicked\<close> go on to \<open>load_database_clicked\<close>. On a window just
  started, with a database at \<open>/tmp/test.db\<close>: select the folder, answer the dialog of
  Clear Message History (with No here), type a prompt and submit. The submit passes both
  checks and one worker is started, while \<open>c\<close> is still \<open>None\<close>; the provider raises,
  the worker emits the error message, and \<open>update_ui\<close> raises \<open>AttributeError\<close> at
  \<open>self.c.execute\<close>: no turn is stored. On a window that has loaded its database the claim
  holds, which is \<open>failure_stored_as_response\<close> above.
\<close>

theorem failure_after_clear_dialog:
  "steps (ChatApp_init [''/tmp/test.db'' \<mapsto> Database (Some [])])
     [SelectFolder ''/tmp'', ClearDatabase ''/tmp/test.db'' False, SetPrompt ''hello'',
      Submit ''t1'', Timeout, WorkerFinished (Inl ''timed out'') ''t2'']
     = Inl AttributeError \<and>
   map_sum id (length \<circ> started)
     (steps (ChatApp_init [''/tmp/test.db'' \<mapsto> Database (Some [])])
        [SelectFolder ''/tmp'', ClearDatabase ''/tmp/test.db'' False, SetPrompt ''hello'',
         Submit ''t1'', Timeout])
     = Inr 1 \<and>
   map_sum id c
     (steps (ChatApp_init [''/tmp/test.db'' \<mapsto> Database (Some [])])
        [SelectFolder ''/tmp'', ClearDatabase ''/tmp/test.db'' False, SetPrompt ''hello'',
         Submit ''t1'', Timeout])
     = Inr None"
  by (simp add: step_def select_folder_clicked_def clear_database_clicked_def
      submit_clicked_def Let_def output_write_def truthy_def
      perform_long_running_task_def generate_response_def ChatApp_init_def
      update_ui_def)

text \<open>
  C6. For every state of the window in which no database has been selected
  (\<open>database_path\<close> is \<open>None\<close>), \<open>submit_clicked\<close> changes nothing but the text of the
  output widget, to which it writes one of its two messages: the files, the worker threads
  and the timer are as before, so no worker is started by the submit, and none by a timeout
  after it when the timer was not active.
\<close>

theorem submit_without_database:
  assumes "database_path s = None"
  shows "(submit_clicked s now =
            s\<lparr>output_text :=
                 CustomTextEdit_write (output_text s) ''Please select a folder first.''\<rparr> \<or>
          submit_clicked s now =
            s\<lparr>output_text :=
                 CustomTextEdit_write (output_text s) ''Please select a database first.''\<rparr>) \<and>
     files (submit_clicked s now) = files s \<and>
     threads (submit_clicked s now) = threads s \<and>
     long_running_task_timer (submit_clicked s now) = long_running_task_timer s \<and>
     (\<not> long_running_task_timer s \<longrightarrow>
        steps s [Submit now, Timeout] = Inr (submit_clicked s now))"
  using assms by (simp add: submit_clicked_def truthy_def output_write_def step_def)

theorem submit_without_database_witness:
  "database_path (ChatApp_init Map.empty) = None \<and>
   \<not> long_running_task_timer (ChatApp_init Map.empty) \<and>
   submit_clicked (ChatApp_init Map.empty) ''t1'' =
     (ChatApp_init Map.empty)
       \<lparr>output_text := CustomTextEdit_write (output_text (ChatApp_init Map.empty))
          ''Please select a folder first.''\<rparr> \<and>
   threads (submit_clicked (ChatApp_init Map.empty) ''t1'') = [] \<and>
   steps (ChatApp_init Map.empty) [Submit ''t1'', Timeout]
     = Inr (submit_clicked (ChatApp_init Map.empty) ''t1'')"
proof -
  have h: "database_path (ChatApp_init Map.empty) = None"
    by (simp add: ChatApp_init_def)
  have t: "\<not> long_running_task_timer (ChatApp_init Map.empty)"
    "threads (ChatApp_init Map.empty) = []"
    by (simp_all add: ChatApp_init_def)
  have d: "submit_clicked (ChatApp_init Map.empty) ''t1'' =
     (ChatApp_init Map.empty)
       \<lparr>output_text := CustomTextEdit_write (output_text (ChatApp_init Map.empty))
          ''Please select a folder first.''\<rparr>"
    by (simp add: submit_clicked_def truthy_def output_write_def ChatApp_init_def)
  note th = submit_without_database [OF h, of "''t1''"]
  have s: "steps (ChatApp_init Map.empty) [Submit ''t1'', Timeout]
     = Inr (submit_clicked (ChatApp_init Map.empty) ''t1'')"
    using th t(1) by blast
  have r: "threads (submit_clicked (ChatApp_init Map.empty) ''t1'') = []"
    using th t(2) by simp
  show ?thesis
    by (intro conjI h t(1) d r s)
qed

text \<open>
  C7. For every state of a database that holds the table, on a window with a folder
  selected: \<open>clear_database_clicked\<close> on that database, confirmed with Yes, returns, and
  \<open>load_database_clicked\<close> on it afterwards gives the empty history.
\<close>

theorem clear_then_load_empty:
  assumes "truthy (database_folder s)" and "selected_database \<noteq> []"
    and "files s selected_database = Some (Database (Some rows))"
  shows "\<exists>s' s''. clear_database_clicked s selected_database True = Inr s' \<and>
     files s' selected_database = Some (Database (Some [])) \<and>
     database_path s' = Some selected_database \<and>
     load_database_clicked s' selected_database = Inr s'' \<and>
     message_history s'' = []"
proof -
  have "\<exists>s'. clear_database_clicked s selected_database True = Inr s' \<and>
     files s' selected_database = Some (Database (Some [])) \<and>
     database_path s' = Some selected_database"
    using assms
    by (simp add: clear_database_clicked_def Let_def output_write_def delete_from_def)
  then obtain s' where cl: "clear_database_clicked s selected_database True = Inr s'"
    and f: "files s' selected_database = Some (Database (Some []))"
    and d: "database_path s' = Some selected_database"
    by blast
  show ?thesis
    using cl f d load_database_clicked_table [OF f] by simp
qed

theorem clear_then_load_empty_witness:
  "truthy (database_folder example_app) \<and> ''/tmp/test.db'' \<noteq> [] \<and>
   files example_app ''/tmp/test.db''
     = Some (Database (Some [(''t0'', ''helpful assistant'', ''hi'', ''ho'')])) \<and>
   (\<exists>s' s''. clear_database_clicked example_app ''/tmp/test.db'' True = Inr s' \<and>
     files s' ''/tmp/test.db'' = Some (Database (Some [])) \<and>
     database_path s' = Some ''/tmp/test.db'' \<and>
     load_database_clicked s' ''/tmp/test.db'' = Inr s'' \<and>
     message_history s'' = [])"
proof -
  have h: "''/tmp/test.db'' \<noteq> []"
    by simp
  show ?thesis
    by (rule conjI [OF example_app_folder conjI [OF h conjI [OF example_app_files
          clear_then_load_empty [OF example_app_folder h example_app_files]]]])
qed

text \<open>
  C8. For every folder and name typed into the dialog such that a file exists at the path
  \<open>create_database\<close> forms from them: the dialog is not accepted and the store of files is
  returned as it was; when a name was typed at all, the message box shown is the critical
  one saying that the database already exists, for \<open>create_database\<close> and for the dialog
  run on that one name.
\<close>

theorem create_database_exists:
  assumes "os_path_exists fs (os_path_join folder_path (db_input @ ''.db''))"
  shows "(\<exists>box. create_database folder_path db_input fs = Inr (box, False, fs)) \<and>
    (db_input \<noteq> [] \<longrightarrow>
      create_database folder_path db_input fs =
        Inr (Critical ''Error'' ''Database already exists. Please choose another name.'',
             False, fs)
      \<and> CreateDatabaseDialog_exec folder_path [db_input] fs =
        Inr (False, db_input,
          [Critical ''Error'' ''Database already exists. Please choose another name.''], fs))"
  using assms by (simp add: create_database_def Let_def)

theorem create_database_exists_witness:
  "os_path_exists [''/tmp/test.db'' \<mapsto> Database (Some [(''t0'', ''r'', ''hi'', ''ho'')])]
     (os_path_join ''/tmp'' (''test'' @ ''.db'')) \<and>
   ''test'' \<noteq> [] \<and>
   create_database ''/tmp'' ''test''
     [''/tmp/test.db'' \<mapsto> Database (Some [(''t0'', ''r'', ''hi'', ''ho'')])] =
     Inr (Critical ''Error'' ''Database already exists. Please choose another name.'', False,
          [''/tmp/test.db'' \<mapsto> Database (Some [(''t0'', ''r'', ''hi'', ''ho'')])])"
proof -
  have h: "os_path_exists [''/tmp/test.db'' \<mapsto> Database (Some [(''t0'', ''r'', ''hi'', ''ho'')])]
     (os_path_join ''/tmp'' (''test'' @ ''.db''))"
    by (simp add: os_path_exists_def os_path_join_def)
  have n: "''test'' \<noteq> []"
    by simp
  show ?thesis
    using create_database_exists [OF h] h n by blast
qed

text \<open>
  C9 as it is stated does not hold. On the example window two submits that are handled
  before the timeout of the timer both pass the checks, both restart the one timer, and the
  timeout that follows starts one worker; the timer is stopped then, and a further timeout
  starts nothing. Two submits, one call of the provider.
\<close>

theorem submit_dispatch_counterexample:
  "map_sum id (length \<circ> started)
     (steps (loaded_app ''/tmp'' ''/tmp/test.db'' [])
        [SetPrompt ''a'', Submit ''t1'', SetPrompt ''b'', Submit ''t2'', Timeout, Timeout])
     = Inr 1 \<and>
   map_sum id (map content \<circ> message_history)
     (steps (loaded_app ''/tmp'' ''/tmp/test.db'' [])
        [SetPrompt ''a'', Submit ''t1'', SetPrompt ''b'', Submit ''t2'', Timeout, Timeout])
     = Inr [''a'', ''b'']"
  by (simp add: step_def submit_clicked_def Let_def output_write_def truthy_def
      perform_long_running_task_def generate_response_def loaded_app_def ChatApp_init_def)

text \<open>
  C9, amended. For every submit with a folder and a database selected: \<open>submit_clicked\<close>
  starts no worker itself and leaves the timer active; whatever events other than the
  timeout of the timer are handled after it and return, further submits among them, none
  of them starts a worker and the timer stays active; the timeout handled next starts exactly one
  worker, on the model selected and the history held at that moment, and stops the timer,
  so that a further timeout starts none. From a submit to the next timeout there is
  exactly one call of the provider, which is that submit's own when no other submit is
  handled in between and is shared by those submits otherwise.
\<close>

theorem submit_dispatch:
  assumes "truthy (database_folder s)" and "truthy (database_path s)"
    and "Timeout \<notin> set evs" and "steps s (Submit now # evs) = Inr s1"
  shows "started (submit_clicked s now) = started s \<and>
    long_running_task_timer (submit_clicked s now) \<and>
    started s1 = started s \<and> long_running_task_timer s1 \<and>
    (\<exists>s2. step s1 Timeout = Inr s2 \<and>
       started s2 = started s @ [Worker_init (model_combo s1) (message_history s1)] \<and>
       \<not> long_running_task_timer s2 \<and>
       step s2 Timeout = Inr s2)"
proof -
  let ?s0 = "submit_clicked s now"
  have a: "started ?s0 = started s" "long_running_task_timer ?s0"
    using assms(1,2) by (simp_all add: submit_clicked_def Let_def output_write_def)
  have r: "steps ?s0 evs = Inr s1"
    using assms(4) by (simp add: step_def)
  have b: "started s1 = started s" "long_running_task_timer s1"
    using steps_started [OF r assms(3)] a by simp_all
  show ?thesis
    unfolding step_Timeout_active [OF b(2)]
    using a b by (simp add: step_def)
qed

theorem submit_dispatch_witness:
  "truthy (database_folder example_app) \<and> truthy (database_path example_app) \<and>
   Timeout \<notin> set [SetPrompt ''b'', Submit ''t2'', SelectModel ''gpt-4''] \<and>
   steps example_app (Submit ''t1'' # [SetPrompt ''b'', Submit ''t2'', SelectModel ''gpt-4''])
     = Inr (projr (steps example_app
              (Submit ''t1'' # [SetPrompt ''b'', Submit ''t2'', SelectModel ''gpt-4'']))) \<and>
   started (projr (steps example_app
              (Submit ''t1'' # [SetPrompt ''b'', Submit ''t2'', SelectModel ''gpt-4''])))
     = started example_app \<and>
   (\<exists>s2. step (projr (steps example_app
              (Submit ''t1'' # [SetPrompt ''b'', Submit ''t2'', SelectModel ''gpt-4''])))
            Timeout = Inr s2 \<and>
      length (started s2) = 1 \<and>
      \<not> long_running_task_timer s2 \<and>
      step s2 Timeout = Inr s2)"
proof -
  let ?evs = "[SetPrompt ''b'', Submit ''t2'', SelectModel ''gpt-4'']"
  have h3: "Timeout \<notin> set ?evs"
    by simp
  have h4: "steps example_app (Submit ''t1'' # ?evs)
     = Inr (projr (steps example_app (Submit ''t1'' # ?evs)))"
    by (simp add: step_def submit_clicked_def Let_def output_write_def truthy_def models_def
        example_app_def loaded_app_def ChatApp_init_def)
  have e: "started example_app = []"
    by (simp add: example_app_def loaded_app_def ChatApp_init_def)
  show ?thesis
    using submit_dispatch [OF example_app_folder example_app_path h3 h4]
      example_app_folder example_app_path h3 h4
    by (auto simp: e)
qed




end
